theory Spec2Isabelle
  imports Complex_Main "HOL-Library.Sublist"
begin

section \<open>Python values and builtins used by the notebook\<close>

text \<open>
  The notebook \<^verbatim>\<open>model_development.ipynb\<close> is Python. A \<^verbatim>\<open>str\<close> is modelled as a
  \<^typ>\<open>string\<close>, one \<^typ>\<open>char\<close> per code point (code points up to 255). A Python
  \<^verbatim>\<open>float\<close> is a binary64 number: a finite value, an infinity or a NaN. A finite
  float is given by its exact value; every operation that produces a float rounds to the
  nearest binary64 number. (The two zeros are one value.) Exceptions are values of the
  type \<open>error\<close>; the argument of \<open>ValueError\<close> records where it was raised.
\<close>

datatype value_error =
    CouldNotConvertToFloat string   \<comment> \<open>\<^verbatim>\<open>float(s)\<close>: could not convert string to float\<close>
  | MaxEmptySequence                \<comment> \<open>\<^verbatim>\<open>max([])\<close>: arg is an empty sequence\<close>
  | UnpackCount nat                 \<comment> \<open>unpacking into six names a value of n items, n not 6\<close>
  | InvalidIntLiteral string        \<comment> \<open>\<^verbatim>\<open>int(s)\<close>: invalid literal for int() with base 10\<close>
  | FloatNaNToInteger               \<comment> \<open>\<^verbatim>\<open>int(x)\<close>: cannot convert float NaN to integer\<close>

datatype error =
    ValueError value_error
  | TypeError
  | KeyError string
  | IndexError
  | OverflowError

datatype pyfloat = Fin real | PInf | NInf | NaN

subsection \<open>Rounding to binary64\<close>

definition pow2 :: "int \<Rightarrow> real" where
  "pow2 k = (if 0 \<le> k then 2 ^ nat k else 1 / 2 ^ nat (- k))"

text \<open>The number of binary digits of a positive integer (0 for the others).\<close>

function bit_length :: "int \<Rightarrow> nat" where
  "bit_length n = (if n \<le> 0 then 0 else Suc (bit_length (n div 2)))"
  by pat_completeness auto
termination
  by (relation "measure nat") auto

declare bit_length.simps [simp del]

text \<open>For \<open>a > 0\<close>, the exponent \<open>e\<close> with \<open>2 ^ e \<le> a < 2 ^ (e + 1)\<close>.\<close>

definition exponent2 :: "real \<Rightarrow> int" where
  "exponent2 a =
     (if 1 \<le> a then int (bit_length \<lfloor>a\<rfloor>) - 1
      else - int (bit_length (\<lceil>1 / a\<rceil> - 1)))"

text \<open>The integer nearest to \<open>t\<close>, the even one of the two when \<open>t\<close> is halfway.\<close>

definition nearest_even :: "int \<Rightarrow> real \<Rightarrow> int" where
  "nearest_even f t =
     (if t - of_int f < 1 / 2 then f
      else if 1 / 2 < t - of_int f then f + 1
      else if even f then f else f + 1)"

definition round_half_even :: "real \<Rightarrow> int" where
  "round_half_even t = nearest_even \<lfloor>t\<rfloor> t"

definition finite_or_inf :: "real \<Rightarrow> pyfloat" where
  "finite_or_inf v = (if pow2 1024 \<le> v then PInf else Fin v)"

text \<open>\<open>a > 0\<close> rounded to a multiple of \<open>2 ^ k\<close>.\<close>

definition round_to :: "real \<Rightarrow> int \<Rightarrow> pyfloat" where
  "round_to a k = finite_or_inf (of_int (round_half_even (a / pow2 k)) * pow2 k)"

fun float_neg :: "pyfloat \<Rightarrow> pyfloat" where
  "float_neg (Fin r) = Fin (- r)"
| "float_neg PInf = NInf"
| "float_neg NInf = PInf"
| "float_neg NaN = NaN"

text \<open>
  The binary64 number nearest to a real, ties to even: 53 significant bits, the
  smallest exponent -1022 (below it the spacing stays \<open>2 ^ -1074\<close>), and an infinity
  when the rounded value reaches \<open>2 ^ 1024\<close>. This is the value of a float literal, of
  \<^verbatim>\<open>float(s)\<close>, of an \<^verbatim>\<open>int\<close> converted to \<^verbatim>\<open>float\<close> and of a product of floats.
\<close>

definition round64 :: "real \<Rightarrow> pyfloat" where
  "round64 x =
     (if x = 0 then Fin 0
      else if x < 0 then float_neg (round_to (- x) (max (exponent2 (- x)) (- 1022) - 52))
      else round_to x (max (exponent2 x) (- 1022) - 52))"

subsection \<open>Strings: \<^verbatim>\<open>in\<close>, \<^verbatim>\<open>find\<close>, slicing\<close>

text \<open>\<^verbatim>\<open>sub in s\<close>: \<open>sub\<close> occurs in \<open>s\<close> as a contiguous substring.\<close>

fun py_in :: "string \<Rightarrow> string \<Rightarrow> bool" where
  "py_in sub [] = (sub = [])"
| "py_in sub (c # cs) = (prefix sub (c # cs) \<or> py_in sub cs)"

text \<open>\<^verbatim>\<open>s.find(sub)\<close>: the lowest index at which \<open>sub\<close> starts in \<open>s\<close>, or \<open>-1\<close>.\<close>

fun py_find :: "string \<Rightarrow> string \<Rightarrow> int" where
  "py_find [] sub = (if sub = [] then 0 else - 1)"
| "py_find (c # cs) sub =
     (if prefix sub (c # cs) then 0
      else (let r = py_find cs sub in if r < 0 then - 1 else r + 1))"

text \<open>
  \<^verbatim>\<open>s[i:j]\<close>: a negative bound counts from the end, and both bounds are clamped to
  \<open>0 .. len(s)\<close>; the slice is empty when the lower bound is not below the upper one.
\<close>

definition py_slice :: "'a list \<Rightarrow> int \<Rightarrow> int \<Rightarrow> 'a list" where
  "py_slice s i j =
     (let n = int (length s);
          lo = (if i < 0 then max (i + n) 0 else min i n);
          hi = (if j < 0 then max (j + n) 0 else min j n)
      in take (nat (hi - lo)) (drop (nat lo) s))"

subsection \<open>\<^verbatim>\<open>float(s)\<close> on a string\<close>

definition is_digit :: "char \<Rightarrow> bool" where
  "is_digit c = (let n = (of_char c :: nat) in 48 \<le> n \<and> n \<le> 57)"

definition digit_val :: "char \<Rightarrow> int" where
  "digit_val c = (of_char c :: int) - 48"

definition digits_val :: "string \<Rightarrow> int" where
  "digits_val ds = foldl (\<lambda>a c. 10 * a + digit_val c) 0 ds"

text \<open>
  White space stripped around a numeric literal: tab, line feed, vertical tab, form
  feed, carriage return, space, and the two white-space code points above 127
  (next line, no-break space).
\<close>

definition py_isspace :: "char \<Rightarrow> bool" where
  "py_isspace c =
     (let n = (of_char c :: nat) in (9 \<le> n \<and> n \<le> 13) \<or> n = 32 \<or> n = 133 \<or> n = 160)"

definition strip :: "string \<Rightarrow> string" where
  "strip s = rev (dropWhile py_isspace (rev (dropWhile py_isspace s)))"

text \<open>
  An underscore is allowed only between two digits. \<open>prev\<close> is the character before
  the rest of the string (NUL at the start).
\<close>

fun underscores_ok :: "char \<Rightarrow> string \<Rightarrow> bool" where
  "underscores_ok prev [] = (prev \<noteq> CHR ''_'')"
| "underscores_ok prev (c # cs) =
     ((if c = CHR ''_'' then is_digit prev else (prev = CHR ''_'' \<longrightarrow> is_digit c))
      \<and> underscores_ok c cs)"

fun split_sign :: "string \<Rightarrow> bool \<times> string" where
  "split_sign [] = (False, [])"
| "split_sign (c # cs) =
     (if c = CHR ''-'' then (True, cs)
      else if c = CHR ''+'' then (False, cs)
      else (False, c # cs))"

definition lower :: "char \<Rightarrow> char" where
  "lower c = (let n = (of_char c :: nat) in if 65 \<le> n \<and> n \<le> 90 then char_of (n + 32) else c)"

definition scale10 :: "real \<Rightarrow> int \<Rightarrow> real" where
  "scale10 m k = (if 0 \<le> k then m * 10 ^ nat k else m / 10 ^ nat (- k))"

text \<open>
  The decimal part of the grammar: \<open>digits [. [digits]] [exponent]\<close> or
  \<open>. digits [exponent]\<close>, where \<open>exponent\<close> is \<open>e\<close> or \<open>E\<close>, an optional sign and
  at least one digit. Nothing may follow. The result is the exact value written.
\<close>

definition parse_decimal :: "string \<Rightarrow> real option" where
  "parse_decimal s =
     (let ds1 = takeWhile is_digit s;
          r1 = dropWhile is_digit s;
          has_point = (r1 \<noteq> [] \<and> hd r1 = CHR ''.'');
          ds2 = (if has_point then takeWhile is_digit (tl r1) else []);
          r2 = (if has_point then dropWhile is_digit (tl r1) else r1);
          m = real_of_int (digits_val (ds1 @ ds2));
          k = - int (length ds2)
      in if ds1 @ ds2 = [] then None
         else if r2 = [] then Some (scale10 m k)
         else if hd r2 = CHR ''e'' \<or> hd r2 = CHR ''E'' then
           (let (neg, r3) = split_sign (tl r2);
                ds3 = takeWhile is_digit r3;
                r4 = dropWhile is_digit r3;
                e = digits_val ds3
            in if ds3 = [] \<or> r4 \<noteq> [] then None
               else Some (scale10 m (k + (if neg then - e else e))))
         else None)"

text \<open>
  \<^verbatim>\<open>float(s)\<close>: \<open>None\<close> stands for the \<^verbatim>\<open>ValueError\<close> it raises. Underscores are
  checked and removed first, then surrounding white space is stripped; what is left is
  an optional sign followed by \<open>inf\<close>, \<open>infinity\<close> or \<open>nan\<close> (in any case) or by a
  decimal literal, whose value is rounded to binary64.
\<close>

definition py_float :: "string \<Rightarrow> pyfloat option" where
  "py_float s =
     (if \<not> underscores_ok (CHR 0x00) s then None
      else
        (let t = strip (filter (\<lambda>c. c \<noteq> CHR ''_'') s);
             (neg, body) = split_sign t;
             w = map lower body
         in if w = ''inf'' \<or> w = ''infinity'' then Some (if neg then NInf else PInf)
            else if w = ''nan'' then Some NaN
            else (case parse_decimal body of
                    None \<Rightarrow> None
                  | Some v \<Rightarrow> Some (round64 (if neg then - v else v)))))"

subsection \<open>Comparing floats, \<^verbatim>\<open>max\<close> over a list of floats\<close>

text \<open>
  \<^verbatim>\<open>a > b\<close> and \<^verbatim>\<open>a >= b\<close> on floats: every comparison with a NaN is false.
  \<^verbatim>\<open>a < b\<close> is \<open>py_gt b a\<close>.
\<close>

fun py_ge :: "pyfloat \<Rightarrow> pyfloat \<Rightarrow> bool" where
  "py_ge NaN _ = False"
| "py_ge _ NaN = False"
| "py_ge (Fin a) (Fin b) = (b \<le> a)"
| "py_ge PInf _ = True"
| "py_ge _ NInf = True"
| "py_ge _ PInf = False"
| "py_ge NInf _ = False"

fun py_gt :: "pyfloat \<Rightarrow> pyfloat \<Rightarrow> bool" where
  "py_gt NaN _ = False"
| "py_gt _ NaN = False"
| "py_gt (Fin a) (Fin b) = (b < a)"
| "py_gt PInf b = (b \<noteq> PInf)"
| "py_gt NInf _ = False"
| "py_gt (Fin a) b = (b = NInf)"

text \<open>
  \<^verbatim>\<open>max(xs)\<close> keeps the first item and replaces it by each later item that compares
  greater; on the empty list it raises \<^verbatim>\<open>ValueError\<close>.
\<close>

definition py_max :: "pyfloat list \<Rightarrow> error + pyfloat" where
  "py_max xs =
     (case xs of
        [] \<Rightarrow> Inl (ValueError MaxEmptySequence)
      | x # rest \<Rightarrow> Inr (foldl (\<lambda>m item. if py_gt item m then item else m) x rest))"

section \<open>Extracting the validation mAP from the training log\<close>

text \<open>
  One event of the log stream returned by \<^verbatim>\<open>client.get_log_events\<close>; the function
  reads only \<^verbatim>\<open>e["message"]\<close>.
\<close>

record log_event =
  timestamp :: int
  message :: string

definition marker :: string where
  "marker = ''validation mAP <score>=''"

text \<open>
  The text handed to \<^verbatim>\<open>float\<close> for a message that contains the marker:
  \<^verbatim>\<open>
  num_start = msg.find("(")
  num_end = msg.find(")")
  mAP = msg[num_start + 1 : num_end]
  \<close>
\<close>

definition extract_mAP :: "string \<Rightarrow> string" where
  "extract_mAP msg =
     (let num_start = py_find msg ''('';
          num_end = py_find msg '')''
      in py_slice msg (num_start + 1) num_end)"

text \<open>
  The loop over \<^verbatim>\<open>cw_log["events"]\<close>, with the list \<^verbatim>\<open>mAP_accs\<close> built so far. A
  \<^verbatim>\<open>ValueError\<close> of \<^verbatim>\<open>float\<close> leaves the loop and the function.
\<close>

fun scan_events :: "log_event list \<Rightarrow> pyfloat list \<Rightarrow> error + pyfloat list" where
  "scan_events [] mAP_accs = Inr mAP_accs"
| "scan_events (e # es) mAP_accs =
     (let msg = message e
      in if py_in marker msg then
           (let mAP = extract_mAP msg
            in case py_float mAP of
                 None \<Rightarrow> Inl (ValueError (CouldNotConvertToFloat mAP))
               | Some v \<Rightarrow> scan_events es (mAP_accs @ [v]))
         else scan_events es mAP_accs)"

text \<open>
  What the function shows when it returns: the title and the maximum it prints, and the
  line it plots (\<^verbatim>\<open>ax.plot(range(len(mAP_accs)), mAP_accs)\<close>: epochs on the x axis,
  values on the y axis). The events are those of \<^verbatim>\<open>cw_log["events"]\<close>, fetched from the
  log service before the loop.
\<close>

record mAP_report =
  printed_title :: string
  printed_max :: pyfloat
  plot_epochs :: "nat list"
  plot_values :: "pyfloat list"

definition plot_object_detection_log :: "log_event list \<Rightarrow> string \<Rightarrow> error + mAP_report" where
  "plot_object_detection_log events title =
     (case scan_events events [] of
        Inl err \<Rightarrow> Inl err
      | Inr mAP_accs \<Rightarrow>
          (case py_max mAP_accs of
             Inl err \<Rightarrow> Inl err
           | Inr m \<Rightarrow>
               Inr \<lparr>printed_title = title, printed_max = m,
                    plot_epochs = [0 ..< length mAP_accs], plot_values = mAP_accs\<rparr>))"

section \<open>Values decoded from JSON and passed around untyped\<close>

text \<open>
  A Python value as \<^verbatim>\<open>json.loads\<close> returns it, also used for the untyped arguments
  of \<^verbatim>\<open>set_hyperparameters\<close>. A number is an \<^verbatim>\<open>int\<close> of any size or a \<^verbatim>\<open>float\<close>
  (\<^verbatim>\<open>json.loads\<close> returns an infinity for a literal too large and accepts \<open>NaN\<close> and
  \<open>Infinity\<close>); a \<^verbatim>\<open>dict\<close> is an association list in insertion order, with distinct
  keys.
\<close>

datatype pynum = PInt int | PFloat pyfloat

datatype pyval =
    PNone
  | PBool bool
  | PNum pynum
  | PStr string
  | PList "pyval list"
  | PDict "(string \<times> pyval) list"

text \<open>\<^verbatim>\<open>obj[key]\<close> with a string key: only a \<^verbatim>\<open>dict\<close> can be indexed by a string.\<close>

fun py_getitem :: "pyval \<Rightarrow> string \<Rightarrow> error + pyval" where
  "py_getitem (PDict kvs) key =
     (case map_of kvs key of None \<Rightarrow> Inl (KeyError key) | Some v \<Rightarrow> Inr v)"
| "py_getitem _ key = Inl TypeError"

text \<open>
  The items a \<^verbatim>\<open>for\<close> loop or a tuple unpacking draws from a value: the elements
  of a list, the keys of a dict, the characters of a string; anything else is not
  iterable.
\<close>

fun py_iter :: "pyval \<Rightarrow> error + pyval list" where
  "py_iter (PList xs) = Inr xs"
| "py_iter (PDict kvs) = Inr (map (\<lambda>kv. PStr (fst kv)) kvs)"
| "py_iter (PStr s) = Inr (map (\<lambda>c. PStr [c]) s)"
| "py_iter _ = Inl TypeError"

text \<open>\<^verbatim>\<open>(klass, score, x0, y0, x1, y1) = det\<close>\<close>

definition unpack6 ::
  "pyval \<Rightarrow> error + (pyval \<times> pyval \<times> pyval \<times> pyval \<times> pyval \<times> pyval)" where
  "unpack6 det =
     (case py_iter det of
        Inl err \<Rightarrow> Inl err
      | Inr [a, b, c, d, e, f] \<Rightarrow> Inr (a, b, c, d, e, f)
      | Inr items \<Rightarrow> Inl (ValueError (UnpackCount (length items))))"

text \<open>
  The number a value stands for in a comparison with a float (\<^verbatim>\<open>score < thresh\<close>) and
  when it is formatted as one: a \<^verbatim>\<open>bool\<close> counts as the \<^verbatim>\<open>int\<close> 0 or 1, and a value
  of any other type raises \<^verbatim>\<open>TypeError\<close> in the comparison.
\<close>

fun py_number :: "pyval \<Rightarrow> error + pynum" where
  "py_number (PNum n) = Inr n"
| "py_number (PBool b) = Inr (PInt (if b then 1 else 0))"
| "py_number _ = Inl TypeError"

text \<open>
  \<^verbatim>\<open>n < t\<close> for a number and a float: an \<^verbatim>\<open>int\<close> is compared by its exact value,
  without being converted.
\<close>

fun num_exact :: "pynum \<Rightarrow> pyfloat" where
  "num_exact (PInt i) = Fin (real_of_int i)"
| "num_exact (PFloat f) = f"

definition num_lt :: "pynum \<Rightarrow> pyfloat \<Rightarrow> bool" where
  "num_lt n t = py_gt t (num_exact n)"

text \<open>
  \<^verbatim>\<open>int(x)\<close> on a number truncates towards zero; an infinite float raises
  \<^verbatim>\<open>OverflowError\<close> and a NaN \<^verbatim>\<open>ValueError\<close>.
\<close>

definition py_trunc :: "real \<Rightarrow> int" where
  "py_trunc r = (if 0 \<le> r then \<lfloor>r\<rfloor> else - \<lfloor>- r\<rfloor>)"

fun num_int :: "pynum \<Rightarrow> error + int" where
  "num_int (PInt i) = Inr i"
| "num_int (PFloat (Fin r)) = Inr (py_trunc r)"
| "num_int (PFloat NaN) = Inl (ValueError FloatNaNToInteger)"
| "num_int (PFloat _) = Inl OverflowError"

text \<open>
  \<^verbatim>\<open>int(s)\<close> on a string, base 10: surrounding white space, an optional sign, then
  digits, with single underscores allowed between digits.
\<close>

definition py_int_str :: "string \<Rightarrow> int option" where
  "py_int_str s =
     (let (neg, body) = split_sign (strip s);
          n = digits_val (filter (\<lambda>c. c \<noteq> CHR ''_'') body)
      in if body \<noteq> [] \<and> list_all (\<lambda>c. is_digit c \<or> c = CHR ''_'') body
            \<and> underscores_ok (CHR 0x00) body
         then Some (if neg then - n else n) else None)"

fun py_int :: "pyval \<Rightarrow> error + int" where
  "py_int (PNum n) = num_int n"
| "py_int (PBool b) = Inr (if b then 1 else 0)"
| "py_int (PStr s) =
     (case py_int_str s of
        None \<Rightarrow> Inl (ValueError (InvalidIntLiteral s))
      | Some i \<Rightarrow> Inr i)"
| "py_int _ = Inl TypeError"

text \<open>
  An \<^verbatim>\<open>int\<close> converted to \<^verbatim>\<open>float\<close>: rounded, and \<^verbatim>\<open>OverflowError\<close> when it is too
  large.
\<close>

definition int_to_float :: "int \<Rightarrow> error + real" where
  "int_to_float k = (case round64 (real_of_int k) of Fin r \<Rightarrow> Inr r | _ \<Rightarrow> Inl OverflowError)"

text \<open>The product of a float and a finite float.\<close>

fun float_mul :: "pyfloat \<Rightarrow> real \<Rightarrow> pyfloat" where
  "float_mul (Fin a) b = round64 (a * b)"
| "float_mul NaN b = NaN"
| "float_mul PInf b = (if b = 0 then NaN else if b < 0 then NInf else PInf)"
| "float_mul NInf b = (if b = 0 then NaN else if b < 0 then PInf else NInf)"

text \<open>
  \<^verbatim>\<open>n * k\<close> for a number and an \<^verbatim>\<open>int\<close>: exact for two \<^verbatim>\<open>int\<close>s; for a float,
  \<open>k\<close> is converted to \<^verbatim>\<open>float\<close> first and the product is rounded.
\<close>

fun num_mul_int :: "pynum \<Rightarrow> int \<Rightarrow> error + pynum" where
  "num_mul_int (PInt i) k = Inr (PInt (i * k))"
| "num_mul_int (PFloat f) k =
     (case int_to_float k of Inl err \<Rightarrow> Inl err | Inr kf \<Rightarrow> Inr (PFloat (float_mul f kf)))"

text \<open>
  \<^verbatim>\<open>x * k\<close> with an \<^verbatim>\<open>int\<close> on the right: numbers multiply, a string or a list is
  repeated \<open>k\<close> times (not at all when \<open>k\<close> is negative).
\<close>

fun py_mul_int :: "pyval \<Rightarrow> int \<Rightarrow> error + pyval" where
  "py_mul_int (PNum n) k =
     (case num_mul_int n k of Inl err \<Rightarrow> Inl err | Inr p \<Rightarrow> Inr (PNum p))"
| "py_mul_int (PBool b) k = Inr (PNum (PInt (if b then k else 0)))"
| "py_mul_int (PStr s) k = Inr (PStr (concat (replicate (nat k) s)))"
| "py_mul_int (PList xs) k = Inr (PList (concat (replicate (nat k) xs)))"
| "py_mul_int _ k = Inl TypeError"

text \<open>\<^verbatim>\<open>int(x * k)\<close>\<close>

definition py_int_mul :: "pyval \<Rightarrow> int \<Rightarrow> error + int" where
  "py_int_mul x k = (case py_mul_int x k of Inl err \<Rightarrow> Inl err | Inr p \<Rightarrow> py_int p)"

text \<open>
  \<^verbatim>\<open>"{:.3f}".format(n)\<close> for a number: an \<^verbatim>\<open>int\<close> is converted to \<^verbatim>\<open>float\<close> and
  raises \<^verbatim>\<open>OverflowError\<close> when it is too large; \<open>None\<close> stands for no exception.
\<close>

fun num_format_f :: "pynum \<Rightarrow> error option" where
  "num_format_f (PInt i) = (case int_to_float i of Inl err \<Rightarrow> Some err | Inr r \<Rightarrow> None)"
| "num_format_f (PFloat f) = None"

text \<open>\<^verbatim>\<open>str(i)\<close> of an \<^verbatim>\<open>int\<close>: its decimal digits, with a minus sign when negative.\<close>

function digits_of :: "int \<Rightarrow> string" where
  "digits_of n =
     (if n < 10 then [''0123456789'' ! nat n]
      else digits_of (n div 10) @ [''0123456789'' ! nat (n mod 10)])"
  by pat_completeness auto
termination
  by (relation "measure nat") auto

declare digits_of.simps [simp del]

definition py_str_int :: "int \<Rightarrow> string" where
  "py_str_int i = (if i < 0 then CHR ''-'' # digits_of (- i) else digits_of i)"

section \<open>Drawing detections\<close>

text \<open>
  The image as \<^verbatim>\<open>visualize_detection\<close> uses it: \<^verbatim>\<open>img.shape[0]\<close> and
  \<^verbatim>\<open>img.shape[1]\<close> of the array that \<^verbatim>\<open>mpimg.imread\<close> returns.
\<close>

record image =
  img_height :: nat
  img_width :: nat

type_synonym color = "real \<times> real \<times> real"

text \<open>
  What is added to the current axes. The constant arguments of the calls
  (\<^verbatim>\<open>fill=False\<close>, \<^verbatim>\<open>linewidth=3.5\<close>, \<^verbatim>\<open>alpha=0.5\<close>, \<^verbatim>\<open>fontsize=12\<close>, \<^verbatim>\<open>color="white"\<close>)
  are left out, and the text \<^verbatim>\<open>"{:s} {:.3f}".format(class_name, score)\<close> is kept as
  its two arguments (a \<^verbatim>\<open>bool\<close> score as the \<^verbatim>\<open>int\<close> it counts as).
\<close>

record rectangle =
  rect_xy :: "int \<times> int"
  rect_width :: int
  rect_height :: int
  edgecolor :: color

record text_label =
  text_x :: int
  text_y :: int
  text_class_name :: string
  text_score :: pynum
  facecolor :: color

datatype out_line =
    DetectionLine string pynum  \<comment> \<open>\<^verbatim>\<open>print("{},{}".format(class_name, score))\<close>\<close>
  | CountLine nat               \<comment> \<open>\<^verbatim>\<open>print("Number of detections: " + str(num_detections))\<close>\<close>

text \<open>
  The state outside the function that a call works on: the patches and texts of the
  current axes, the standard output, and the generator behind \<^verbatim>\<open>random.random()\<close>,
  given as the sequence of numbers it will return.
\<close>

record world =
  w_patches :: "rectangle list"
  w_texts :: "text_label list"
  w_stdout :: "out_line list"
  w_rng :: "nat \<Rightarrow> real"

text \<open>
  The state of one call: the argument object \<^verbatim>\<open>dets\<close>, the locals \<^verbatim>\<open>colors\<close> and
  \<^verbatim>\<open>num_detections\<close>, and the state outside.
\<close>

record vd_state =
  st_dets :: pyval
  colors :: "int \<rightharpoonup> color"
  num_detections :: nat
  patches :: "rectangle list"
  texts :: "text_label list"
  stdout :: "out_line list"
  rng :: "nat \<Rightarrow> real"

text \<open>
  \<^verbatim>\<open>
  class_name = str(cls_id)
  if classes and len(classes) > cls_id:
      class_name = classes[cls_id]
  \<close>
  Indexing a list with a negative \<open>cls_id\<close> counts from the end and raises
  \<^verbatim>\<open>IndexError\<close> below \<open>-len(classes)\<close>.
\<close>

definition class_label :: "string list \<Rightarrow> int \<Rightarrow> error + string" where
  "class_label classes cls_id =
     (if classes \<noteq> [] \<and> cls_id < int (length classes) then
        (let j = (if cls_id < 0 then int (length classes) + cls_id else cls_id)
         in if 0 \<le> j then Inr (classes ! nat j) else Inl IndexError)
      else Inr (py_str_int cls_id))"

text \<open>
  \<^verbatim>\<open>
  if cls_id not in colors:
      colors[cls_id] = (random.random(), random.random(), random.random())
  \<close>
\<close>

definition assign_color :: "int \<Rightarrow> vd_state \<Rightarrow> vd_state" where
  "assign_color cls_id s =
     (case colors s cls_id of
        Some c \<Rightarrow> s
      | None \<Rightarrow>
          s\<lparr>colors := (colors s)(cls_id \<mapsto> (rng s 0, rng s 1, rng s 2)),
            rng := (\<lambda>n. rng s (n + 3))\<rparr>)"

text \<open>
  \<^verbatim>\<open>
  xmin = int(x0 * width)
  ymin = int(y0 * height)
  xmax = int(x1 * width)
  ymax = int(y1 * height)
  \<close>
\<close>

definition pixel_box ::
  "image \<Rightarrow> pyval \<Rightarrow> pyval \<Rightarrow> pyval \<Rightarrow> pyval \<Rightarrow> error + (int \<times> int \<times> int \<times> int)" where
  "pixel_box img x0 y0 x1 y1 =
     (case py_int_mul x0 (int (img_width img)) of Inl err \<Rightarrow> Inl err | Inr xmin \<Rightarrow>
      case py_int_mul y0 (int (img_height img)) of Inl err \<Rightarrow> Inl err | Inr ymin \<Rightarrow>
      case py_int_mul x1 (int (img_width img)) of Inl err \<Rightarrow> Inl err | Inr xmax \<Rightarrow>
      case py_int_mul y1 (int (img_height img)) of Inl err \<Rightarrow> Inl err | Inr ymax \<Rightarrow>
        Inr (xmin, ymin, xmax, ymax))"

text \<open>
  One pass of the loop body for the item \<open>det\<close>. The result is the state reached and
  the exception raised, if any: what was drawn and printed before an exception stays.
  The text of the label is formatted before it is added, so a score that cannot be
  formatted raises after the line has been printed and leaves no label.
\<close>

definition vd_body ::
  "image \<Rightarrow> string list \<Rightarrow> pyfloat \<Rightarrow> pyval \<Rightarrow> vd_state \<Rightarrow> vd_state \<times> error option" where
  "vd_body img classes thresh det s =
     (case unpack6 det of Inl err \<Rightarrow> (s, Some err)
      | Inr (klass, score, x0, y0, x1, y1) \<Rightarrow>
     (case py_number score of Inl err \<Rightarrow> (s, Some err)
      | Inr sc \<Rightarrow>
        if num_lt sc thresh then (s, None)
        else
          (let s1 = s\<lparr>num_detections := num_detections s + 1\<rparr>
           in case py_int klass of Inl err \<Rightarrow> (s1, Some err)
              | Inr cls_id \<Rightarrow>
             (let s2 = assign_color cls_id s1
              in case pixel_box img x0 y0 x1 y1 of Inl err \<Rightarrow> (s2, Some err)
                 | Inr (xmin, ymin, xmax, ymax) \<Rightarrow>
                (case colors s2 cls_id of None \<Rightarrow> (s2, Some (KeyError (py_str_int cls_id)))
                 | Some col \<Rightarrow>
                   (let rect = \<lparr>rect_xy = (xmin, ymin), rect_width = xmax - xmin,
                                rect_height = ymax - ymin, edgecolor = col\<rparr>;
                        s3 = s2\<lparr>patches := patches s2 @ [rect]\<rparr>
                    in case class_label classes cls_id of Inl err \<Rightarrow> (s3, Some err)
                       | Inr class_name \<Rightarrow>
                         (let s4 = s3\<lparr>stdout := stdout s3 @ [DetectionLine class_name sc]\<rparr>
                          in case num_format_f sc of Some err \<Rightarrow> (s4, Some err)
                             | None \<Rightarrow>
                               (s4\<lparr>texts := texts s4 @
                                    [\<lparr>text_x = xmin, text_y = ymin - 2,
                                      text_class_name = class_name, text_score = sc,
                                      facecolor = col\<rparr>]\<rparr>,
                                None))))))))"

text \<open>\<^verbatim>\<open>for det in dets:\<close> over the items of \<open>dets\<close>, stopping at the first exception.\<close>

fun vd_loop ::
  "image \<Rightarrow> string list \<Rightarrow> pyfloat \<Rightarrow> pyval list \<Rightarrow> vd_state \<Rightarrow> vd_state \<times> error option" where
  "vd_loop img classes thresh [] s = (s, None)"
| "vd_loop img classes thresh (det # rest) s =
     (case vd_body img classes thresh det s of
        (s', Some err) \<Rightarrow> (s', Some err)
      | (s', None) \<Rightarrow> vd_loop img classes thresh rest s')"

text \<open>
  \<^verbatim>\<open>visualize_detection(img_file, dets, classes, thresh)\<close>, with the image read from
  \<^verbatim>\<open>img_file\<close> given and the threshold a float. \<^verbatim>\<open>colors\<close> starts as the empty dict
  and the count at 0; the count is printed when the loop has finished without an
  exception.
\<close>

definition visualize_detection ::
  "image \<Rightarrow> pyval \<Rightarrow> string list \<Rightarrow> pyfloat \<Rightarrow> world \<Rightarrow> vd_state \<times> error option" where
  "visualize_detection img dets classes thresh w =
     (let s0 = \<lparr>st_dets = dets, colors = Map.empty, num_detections = 0,
                patches = w_patches w, texts = w_texts w, stdout = w_stdout w,
                rng = w_rng w\<rparr>
      in case py_iter dets of
           Inl err \<Rightarrow> (s0, Some err)
         | Inr items \<Rightarrow>
             (case vd_loop img classes thresh items s0 of
                (s, Some err) \<Rightarrow> (s, Some err)
              | (s, None) \<Rightarrow> (s\<lparr>stdout := stdout s @ [CountLine (num_detections s)]\<rparr>, None)))"

text \<open>The state outside the function after a call.\<close>

definition world_of :: "vd_state \<Rightarrow> world" where
  "world_of s = \<lparr>w_patches = patches s, w_texts = texts s, w_stdout = stdout s, w_rng = rng s\<rparr>"

text \<open>
  \<^verbatim>\<open>show_hb_prediction\<close>, from the decoded response on
  (\<^verbatim>\<open>detections = json.loads(results)\<close>):
  \<^verbatim>\<open>visualize_detection(filename, detections["prediction"], OBJECT_CATEGORIES, thresh)\<close>.
  The global \<^verbatim>\<open>OBJECT_CATEGORIES\<close> is built from a data frame that the notebook does not
  define; it is a parameter here, a list of strings as the docstring of
  \<^verbatim>\<open>visualize_detection\<close> asks.
\<close>

definition show_hb_prediction ::
  "image \<Rightarrow> string list \<Rightarrow> pyval \<Rightarrow> pyfloat \<Rightarrow> world \<Rightarrow> world \<times> error option" where
  "show_hb_prediction img object_categories detections thresh w =
     (case py_getitem detections ''prediction'' of
        Inl err \<Rightarrow> (w, Some err)
      | Inr dets \<Rightarrow>
          (let (s, r) = visualize_detection img dets object_categories thresh w
           in (world_of s, r)))"

text \<open>
  A row of the documented format \<^verbatim>\<open>[id, score, x1, y1, x2, y2]\<close> (the docstring of
  \<^verbatim>\<open>visualize_detection\<close>), six numbers. The definitions after it name, in the
  statements below, what the loop body computes for such a row: whether the row passes
  the test \<^verbatim>\<open>score < thresh\<close>, its class id \<^verbatim>\<open>int(klass)\<close>, its pixel box, and the
  rectangle and the label drawn for it. A row is \<open>drawable\<close> when the body draws it
  without an exception: the class id and the four pixel coordinates convert to
  \<^verbatim>\<open>int\<close>, the label lookup does not raise, and the score can be formatted.
\<close>

record detection =
  det_class :: pynum
  det_score :: pynum
  det_x0 :: pynum
  det_y0 :: pynum
  det_x1 :: pynum
  det_y1 :: pynum

definition det_row :: "detection \<Rightarrow> pyval" where
  "det_row d =
     PList [PNum (det_class d), PNum (det_score d),
            PNum (det_x0 d), PNum (det_y0 d), PNum (det_x1 d), PNum (det_y1 d)]"

definition passes :: "pyfloat \<Rightarrow> detection \<Rightarrow> bool" where
  "passes thresh d = (\<not> num_lt (det_score d) thresh)"

definition det_cls_id :: "detection \<Rightarrow> int" where
  "det_cls_id d = projr (num_int (det_class d))"

definition det_box :: "image \<Rightarrow> detection \<Rightarrow> error + (int \<times> int \<times> int \<times> int)" where
  "det_box img d =
     pixel_box img (PNum (det_x0 d)) (PNum (det_y0 d)) (PNum (det_x1 d)) (PNum (det_y1 d))"

definition box_rect :: "int \<times> int \<times> int \<times> int \<Rightarrow> color \<Rightarrow> rectangle" where
  "box_rect box col =
     (case box of (xmin, ymin, xmax, ymax) \<Rightarrow>
        \<lparr>rect_xy = (xmin, ymin), rect_width = xmax - xmin, rect_height = ymax - ymin,
         edgecolor = col\<rparr>)"

definition det_rect :: "image \<Rightarrow> detection \<Rightarrow> color \<Rightarrow> rectangle" where
  "det_rect img d col = box_rect (projr (det_box img d)) col"

definition box_text :: "int \<times> int \<times> int \<times> int \<Rightarrow> string \<Rightarrow> pynum \<Rightarrow> color \<Rightarrow> text_label" where
  "box_text box class_name sc col =
     (case box of (xmin, ymin, xmax, ymax) \<Rightarrow>
        \<lparr>text_x = xmin, text_y = ymin - 2, text_class_name = class_name, text_score = sc,
         facecolor = col\<rparr>)"

definition det_text :: "image \<Rightarrow> detection \<Rightarrow> string \<Rightarrow> color \<Rightarrow> text_label" where
  "det_text img d class_name col =
     box_text (projr (det_box img d)) class_name (det_score d) col"

definition drawable :: "image \<Rightarrow> string list \<Rightarrow> detection \<Rightarrow> bool" where
  "drawable img classes d =
     ((case num_int (det_class d) of
         Inl err \<Rightarrow> False
       | Inr c \<Rightarrow> classes = [] \<or> - int (length classes) \<le> c)
      \<and> (case det_box img d of Inl err \<Rightarrow> False | Inr box \<Rightarrow> True)
      \<and> num_format_f (det_score d) = None)"




section \<open>Setting the hyperparameters\<close>

text \<open>
  The estimator \<^verbatim>\<open>od_model\<close> is a global of the notebook; of its state only the
  hyperparameter dict matters here. The SDK's \<^verbatim>\<open>Estimator.set_hyperparameters(**kwargs)\<close>
  stores every keyword argument in that dict.
\<close>

record estimator =
  hyperparameters :: "string \<rightharpoonup> pyval"

definition estimator_set_hyperparameters ::
  "(string \<times> pyval) list \<Rightarrow> estimator \<Rightarrow> estimator" where
  "estimator_set_hyperparameters kwargs est =
     est\<lparr>hyperparameters := foldl (\<lambda>m kv. m(fst kv \<mapsto> snd kv)) (hyperparameters est) kwargs\<rparr>"

text \<open>
  \<^verbatim>\<open>set_hyperparameters\<close> with all sixteen arguments given (the defaults of the source
  are filled in by the caller). It prints thirteen of them and hands all sixteen to the
  estimator under the estimator's names. The result is the estimator and the values
  printed.
\<close>

definition set_hyperparameters ::
  "pyval \<Rightarrow> pyval \<Rightarrow> pyval \<Rightarrow> pyval \<Rightarrow> pyval \<Rightarrow> pyval \<Rightarrow> pyval \<Rightarrow> pyval \<Rightarrow> pyval \<Rightarrow> pyval
   \<Rightarrow> pyval \<Rightarrow> pyval \<Rightarrow> pyval \<Rightarrow> pyval \<Rightarrow> pyval \<Rightarrow> pyval \<Rightarrow> estimator
   \<Rightarrow> estimator \<times> pyval list" where
  "set_hyperparameters num_classes num_training_samples mini_batch_size num_epochs
       learning_rate lr_steps lr_scheduler_factor base_network use_pretrained_model
       optimizer momentum weight_decay overlap_threshold nms_threshold image_shape
       label_width od_model =
     (estimator_set_hyperparameters
        [(''base_network'', base_network),
         (''use_pretrained_model'', use_pretrained_model),
         (''num_classes'', num_classes),
         (''mini_batch_size'', mini_batch_size),
         (''epochs'', num_epochs),
         (''learning_rate'', learning_rate),
         (''lr_scheduler_step'', lr_steps),
         (''lr_scheduler_factor'', lr_scheduler_factor),
         (''optimizer'', optimizer),
         (''momentum'', momentum),
         (''weight_decay'', weight_decay),
         (''overlap_threshold'', overlap_threshold),
         (''nms_threshold'', nms_threshold),
         (''image_shape'', image_shape),
         (''label_width'', label_width),
         (''num_training_samples'', num_training_samples)] od_model,
      [num_classes, num_training_samples, mini_batch_size, num_epochs, learning_rate,
       lr_steps, lr_scheduler_factor, base_network, optimizer, momentum, weight_decay,
       overlap_threshold, nms_threshold])"

text \<open>
  The call of the notebook,
  \<^verbatim>\<open>set_hyperparameters(1, 360, 16, 100, 0.001, "33,67", 0.1)\<close>, with the defaults of the
  signature for the other nine arguments.
\<close>

definition notebook_hyperparameters :: "estimator \<Rightarrow> estimator \<times> pyval list" where
  "notebook_hyperparameters od_model =
     set_hyperparameters (PNum (PInt 1)) (PNum (PInt 360)) (PNum (PInt 16)) (PNum (PInt 100))
       (PNum (PFloat (round64 0.001))) (PStr ''33,67'') (PNum (PFloat (round64 0.1)))
       (PStr ''resnet-50'') (PNum (PInt 1)) (PStr ''sgd'') (PNum (PFloat (round64 0.9)))
       (PNum (PFloat (round64 0.0005))) (PNum (PFloat (round64 0.5)))
       (PNum (PFloat (round64 0.45))) (PNum (PInt 512)) (PNum (PInt 350)) od_model"

section \<open>Example inputs\<close>

definition log_line :: "string \<Rightarrow> log_event" where
  "log_line msg = \<lparr>timestamp = 0, message = msg\<rparr>"

definition example_image :: image where
  "example_image = \<lparr>img_height = 100, img_width = 200\<rparr>"

definition example_world :: world where
  "example_world =
     \<lparr>w_patches = [], w_texts = [], w_stdout = [], w_rng = (\<lambda>n. 1 / real (n + 2))\<rparr>"

text \<open>
  The row \<^verbatim>\<open>[k, sc, 0.1, 0.2, 0.5, 0.6]\<close> with an \<^verbatim>\<open>int\<close> class id and float literals.
\<close>

definition example_det :: "int \<Rightarrow> real \<Rightarrow> detection" where
  "example_det k sc =
     \<lparr>det_class = PInt k, det_score = PFloat (round64 sc),
      det_x0 = PFloat (round64 0.1), det_y0 = PFloat (round64 0.2),
      det_x1 = PFloat (round64 0.5), det_y1 = PFloat (round64 0.6)\<rparr>"

section \<open>Properties of the log scan\<close>

lemmas round_defs =
  round64_def round_to_def finite_or_inf_def round_half_even_def nearest_even_def
  exponent2_def pow2_def bit_length.simps

lemmas float_defs =
  py_float_def strip_def parse_decimal_def is_digit_def digit_val_def digits_val_def
  py_isspace_def lower_def scale10_def round_defs

lemmas log_defs =
  plot_object_detection_log_def log_line_def marker_def extract_mAP_def py_slice_def py_max_def

lemma py_in_iff: "py_in sub s \<longleftrightarrow> (\<exists>a b. s = a @ sub @ b)"
proof (induction s)
  case Nil
  then show ?case by simp
next
  case (Cons c cs)
  show ?case
  proof
    assume "py_in sub (c # cs)"
    then consider "prefix sub (c # cs)" | "py_in sub cs" by auto
    then show "\<exists>a b. c # cs = a @ sub @ b"
    proof cases
      case 1
      then obtain b where "c # cs = sub @ b" by (auto simp: prefix_def)
      then have "c # cs = [] @ sub @ b" by simp
      then show ?thesis by blast
    next
      case 2
      with Cons.IH obtain a b where "cs = a @ sub @ b" by blast
      then have "c # cs = (c # a) @ sub @ b" by simp
      then show ?thesis by blast
    qed
  next
    assume "\<exists>a b. c # cs = a @ sub @ b"
    then obtain a b where e: "c # cs = a @ sub @ b" by blast
    show "py_in sub (c # cs)"
    proof (cases a)
      case Nil
      with e have "prefix sub (c # cs)" by (simp add: prefix_def)
      then show ?thesis by simp
    next
      case (Cons x a')
      with e have "cs = a' @ sub @ b" by simp
      with Cons.IH have "py_in sub cs" by blast
      then show ?thesis by simp
    qed
  qed
qed

lemma py_in_shorter: "py_in (sub @ t) s \<Longrightarrow> py_in sub s"
proof -
  assume "py_in (sub @ t) s"
  then obtain a b where "s = a @ (sub @ t) @ b" unfolding py_in_iff by blast
  then have "s = a @ sub @ (t @ b)" by simp
  then show ?thesis unfolding py_in_iff by blast
qed

lemma py_find_first: "c \<notin> set a \<Longrightarrow> py_find (a @ c # r) [c] = int (length a)"
  by (induction a) (auto simp: Let_def)

lemma py_slice_middle:
  "py_slice (a @ x # b @ r) (int (length a) + 1) (int (length a) + 1 + int (length b)) = b"
proof -
  have "nat (int (length a) + 1) = Suc (length a)" by simp
  then show ?thesis by (simp add: py_slice_def Let_def)
qed

lemma py_slice_empty: "0 \<le> j \<Longrightarrow> j \<le> i \<Longrightarrow> py_slice s i j = []"
  by (simp add: py_slice_def Let_def)

lemma extract_mAP_between:
  assumes "CHR ''('' \<notin> set a" and "CHR '')'' \<notin> set a" and "CHR '')'' \<notin> set b"
  shows "extract_mAP (a @ ''('' @ b @ '')'' @ c) = b"
proof -
  have s: "py_find (a @ ''('' @ b @ '')'' @ c) ''('' = int (length a)"
    using py_find_first [OF assms(1)] by simp
  have "CHR '')'' \<notin> set (a @ ''('' @ b)" using assms by simp
  from py_find_first [OF this, of c]
  have e: "py_find (a @ ''('' @ b @ '')'' @ c) '')'' = int (length a) + 1 + int (length b)"
    by simp
  show ?thesis
    unfolding extract_mAP_def Let_def s e
    using py_slice_middle [of a "CHR ''(''" b "'')'' @ c"] by simp
qed

lemma extract_mAP_close_first:
  assumes "CHR ''('' \<notin> set a" and "CHR '')'' \<notin> set a" and "CHR ''('' \<notin> set b"
  shows "extract_mAP (a @ '')'' @ b @ ''('' @ c) = []"
proof -
  have e: "py_find (a @ '')'' @ b @ ''('' @ c) '')'' = int (length a)"
    using py_find_first [OF assms(2)] by simp
  have "CHR ''('' \<notin> set (a @ '')'' @ b)" using assms by simp
  from py_find_first [OF this, of c]
  have s: "py_find (a @ '')'' @ b @ ''('' @ c) ''('' = int (length a) + 1 + int (length b)"
    by simp
  show ?thesis
    unfolding extract_mAP_def Let_def s e by (rule py_slice_empty) simp_all
qed

lemma scan_events_Inr:
  "scan_events es acc = Inr vs \<Longrightarrow>
   map Some vs = map Some acc @
     map (\<lambda>e. py_float (extract_mAP (message e))) (filter (\<lambda>e. py_in marker (message e)) es)"
proof (induction es arbitrary: acc)
  case Nil
  then show ?case by auto
next
  case (Cons e es)
  then show ?case
    by (cases "py_in marker (message e)"; cases "py_float (extract_mAP (message e))")
       (auto simp: Let_def)
qed

lemma scan_events_Inl:
  "(\<exists>err. scan_events es acc = Inl err) \<longleftrightarrow>
   (\<exists>e \<in> set es. py_in marker (message e) \<and> py_float (extract_mAP (message e)) = None)"
proof (induction es arbitrary: acc)
  case Nil
  then show ?case by simp
next
  case (Cons e es)
  then show ?case
    by (cases "py_in marker (message e)"; cases "py_float (extract_mAP (message e))")
       (auto simp: Let_def)
qed

lemma scan_events_Inl_kind:
  "scan_events es acc = Inl err \<Longrightarrow> \<exists>t. err = ValueError (CouldNotConvertToFloat t)"
proof (induction es arbitrary: acc)
  case Nil
  then show ?case by simp
next
  case (Cons e es)
  then show ?case
    by (cases "py_in marker (message e)"; cases "py_float (extract_mAP (message e))")
       (auto simp: Let_def)
qed


lemma plot_log_Inr:
  assumes "plot_object_detection_log events title = Inr out"
  shows "scan_events events [] = Inr (plot_values out)"
    and "plot_epochs out = [0 ..< length (plot_values out)]"
    and "py_max (plot_values out) = Inr (printed_max out)"
    and "printed_title out = title"
  using assms by (auto simp: plot_object_detection_log_def split: sum.splits)





text \<open>
  C3, as stated, fails: a marker message whose payload is not a number does not produce
  a warning. \<^verbatim>\<open>float\<close> raises, and the call ends there without reporting the samples
  read before or after.
\<close>

theorem C3_counterexample:
  "plot_object_detection_log
     [log_line ''validation mAP <score>=(0.42)'', log_line ''validation mAP <score>=(abc)'',
      log_line ''validation mAP <score>=(0.55)''] ''job''
   = Inl (ValueError (CouldNotConvertToFloat ''abc''))"
  by (simp add: log_defs float_defs)

text \<open>
  C3, amended. Every message yields at most one sample: one for each message that
  contains the marker, none for the others. The scan is not resilient: as soon as the
  text taken from a marker message is not accepted by \<^verbatim>\<open>float\<close>, the call fails with
  that \<^verbatim>\<open>ValueError\<close> and reports no samples.
\<close>

theorem C3_malformed_payload_aborts:
  "((\<exists>e \<in> set events. py_in marker (message e) \<and> py_float (extract_mAP (message e)) = None)
      \<longrightarrow> (\<exists>t. plot_object_detection_log events title =
                 Inl (ValueError (CouldNotConvertToFloat t))))
   \<and> (\<forall>out. plot_object_detection_log events title = Inr out \<longrightarrow>
         length (plot_values out) = length (filter (\<lambda>e. py_in marker (message e)) events)
       \<and> length (plot_values out) \<le> length events)"
proof (intro conjI allI impI)
  assume "\<exists>e \<in> set events. py_in marker (message e) \<and> py_float (extract_mAP (message e)) = None"
  then obtain err where e: "scan_events events [] = Inl err"
    using scan_events_Inl [of events "[]"] by blast
  from scan_events_Inl_kind [OF e] obtain t where "err = ValueError (CouldNotConvertToFloat t)"
    by blast
  with e show "\<exists>t. plot_object_detection_log events title =
                 Inl (ValueError (CouldNotConvertToFloat t))"
    by (simp add: plot_object_detection_log_def)
next
  fix out
  assume a: "plot_object_detection_log events title = Inr out"
  from scan_events_Inr [OF plot_log_Inr(1) [OF a]]
  have "length (map Some (plot_values out)) =
        length (map (\<lambda>e. py_float (extract_mAP (message e)))
           (filter (\<lambda>e. py_in marker (message e)) events))"
    by simp
  then show l: "length (plot_values out) =
      length (filter (\<lambda>e. py_in marker (message e)) events)"
    by simp
  show "length (plot_values out) \<le> length events"
    unfolding l by (rule length_filter_le)
qed

theorem C3_malformed_payload_aborts_witness:
  "(\<exists>e \<in> set [log_line ''validation mAP <score>=(0.42)'', log_line ''validation mAP <score>=()''].
       py_in marker (message e) \<and> py_float (extract_mAP (message e)) = None)
   \<and> (\<exists>t. plot_object_detection_log
            [log_line ''validation mAP <score>=(0.42)'', log_line ''validation mAP <score>=()'']
            ''job'' = Inl (ValueError (CouldNotConvertToFloat t)))
   \<and> plot_object_detection_log [log_line ''validation mAP <score>=(0.42)'', log_line ''x''] ''job''
       = Inr \<lparr>printed_title = ''job'', printed_max = round64 0.42, plot_epochs = [0],
              plot_values = [round64 0.42]\<rparr>
   \<and> length [round64 0.42] \<le> length [log_line ''validation mAP <score>=(0.42)'', log_line ''x'']"
proof -
  let ?bad = "[log_line ''validation mAP <score>=(0.42)'', log_line ''validation mAP <score>=()'']"
  let ?good = "[log_line ''validation mAP <score>=(0.42)'', log_line ''x'']"
  let ?out = "\<lparr>printed_title = ''job'', printed_max = round64 0.42, plot_epochs = [0],
              plot_values = [round64 0.42]\<rparr>"
  have h1: "\<exists>e \<in> set ?bad.
       py_in marker (message e) \<and> py_float (extract_mAP (message e)) = None"
    by (simp add: log_defs float_defs)
  have h2: "plot_object_detection_log ?good ''job'' = Inr ?out"
    by (simp add: log_defs float_defs)
  from C3_malformed_payload_aborts [of ?bad "''job''"] h1
  have c1: "\<exists>t. plot_object_detection_log ?bad ''job'' = Inl (ValueError (CouldNotConvertToFloat t))"
    by blast
  from C3_malformed_payload_aborts [of ?good "''job''"] h2
  have c2: "length (plot_values ?out) \<le> length ?good"
    by blast
  from h1 c1 h2 c2 show ?thesis by simp
qed



text \<open>
  C10. For a message that contains the marker, the text handed to \<^verbatim>\<open>float\<close> is what
  stands between the first \<open>(\<close> and the first \<open>)\<close> of the whole message, wherever
  the marker is: a parenthesis earlier in the message decides what is read. When the
  first \<open>)\<close> comes before the first \<open>(\<close>, that text is empty.
\<close>

theorem C10_first_parentheses:
  "(py_in marker (message e) \<longrightarrow>
      scan_events [e] [] =
        (case py_float (extract_mAP (message e)) of
           None \<Rightarrow> Inl (ValueError (CouldNotConvertToFloat (extract_mAP (message e))))
         | Some v \<Rightarrow> Inr [v]))
   \<and> (CHR ''('' \<notin> set a \<and> CHR '')'' \<notin> set a \<and> CHR '')'' \<notin> set b \<longrightarrow>
        extract_mAP (a @ ''('' @ b @ '')'' @ c) = b)
   \<and> (CHR ''('' \<notin> set a \<and> CHR '')'' \<notin> set a \<and> CHR ''('' \<notin> set b \<longrightarrow>
        extract_mAP (a @ '')'' @ b @ ''('' @ c) = [])"
proof (intro conjI impI)
  assume "py_in marker (message e)"
  then show "scan_events [e] [] =
        (case py_float (extract_mAP (message e)) of
           None \<Rightarrow> Inl (ValueError (CouldNotConvertToFloat (extract_mAP (message e))))
         | Some v \<Rightarrow> Inr [v])"
    by (simp add: Let_def split: option.splits)
next
  assume "CHR ''('' \<notin> set a \<and> CHR '')'' \<notin> set a \<and> CHR '')'' \<notin> set b"
  then show "extract_mAP (a @ ''('' @ b @ '')'' @ c) = b"
    by (intro extract_mAP_between) simp_all
next
  assume "CHR ''('' \<notin> set a \<and> CHR '')'' \<notin> set a \<and> CHR ''('' \<notin> set b"
  then show "extract_mAP (a @ '')'' @ b @ ''('' @ c) = []"
    by (intro extract_mAP_close_first) simp_all
qed

theorem C10_first_parentheses_witness:
  "py_in marker (message (log_line ''epoch(3) validation mAP <score>=(0.9)''))
   \<and> CHR ''('' \<notin> set ''epoch'' \<and> CHR '')'' \<notin> set ''epoch'' \<and> CHR '')'' \<notin> set ''3''
   \<and> extract_mAP (''epoch'' @ ''('' @ ''3'' @ '')'' @ '' validation mAP <score>=(0.9)'') = ''3''
   \<and> scan_events [log_line ''epoch(3) validation mAP <score>=(0.9)''] [] = Inr [Fin 3]
   \<and> CHR ''('' \<notin> set ''done'' \<and> CHR '')'' \<notin> set ''done'' \<and> CHR ''('' \<notin> set '' validation mAP <score>=''
   \<and> extract_mAP (''done'' @ '')'' @ '' validation mAP <score>='' @ ''('' @ ''0.9)'') = []"
proof -
  let ?e = "log_line ''epoch(3) validation mAP <score>=(0.9)''"
  have h1: "py_in marker (message ?e)" by (simp add: log_line_def marker_def)
  have h2: "CHR ''('' \<notin> set ''epoch'' \<and> CHR '')'' \<notin> set ''epoch'' \<and> CHR '')'' \<notin> set ''3''"
    by simp
  have h3: "CHR ''('' \<notin> set ''done'' \<and> CHR '')'' \<notin> set ''done''
      \<and> CHR ''('' \<notin> set '' validation mAP <score>=''"
    by simp
  note t = C10_first_parentheses [of ?e "''epoch''" "''3''" "'' validation mAP <score>=(0.9)''"]
  note u = C10_first_parentheses [of ?e "''done''" "'' validation mAP <score>=''" "''0.9)''"]
  from t h2 have c2: "extract_mAP (''epoch'' @ ''('' @ ''3'' @ '')'' @ '' validation mAP <score>=(0.9)'') = ''3''"
    by blast
  from u h3 have c3: "extract_mAP (''done'' @ '')'' @ '' validation mAP <score>='' @ ''('' @ ''0.9)'') = []"
    by blast
  have m: "message ?e = ''epoch'' @ ''('' @ ''3'' @ '')'' @ '' validation mAP <score>=(0.9)''"
    by (simp add: log_line_def)
  from t h1 have "scan_events [?e] [] =
        (case py_float (extract_mAP (message ?e)) of
           None \<Rightarrow> Inl (ValueError (CouldNotConvertToFloat (extract_mAP (message ?e))))
         | Some v \<Rightarrow> Inr [v])"
    by blast
  then have c1: "scan_events [?e] [] = Inr [Fin 3]"
    unfolding m c2 by (simp add: float_defs)
  from h1 h2 h3 c1 c2 c3 show ?thesis by simp
qed

section \<open>Properties of the hyperparameter call\<close>

text \<open>
  C2, as stated, fails: no argument is checked. A class count of 0, a negative learning
  rate, a decay factor of 0 and a momentum of 7 are stored like any other values, and
  the call returns normally.
\<close>

theorem C2_counterexample:
  "(let h = hyperparameters (fst (set_hyperparameters (PNum (PInt 0)) (PNum (PInt 360))
        (PNum (PInt 16)) (PNum (PInt 100)) (PNum (PInt (- 1))) (PStr ''33,67'')
        (PNum (PInt 0)) (PStr ''resnet-50'') (PNum (PInt 1)) (PStr ''sgd'') (PNum (PInt 7))
        (PNum (PFloat (round64 0.0005))) (PNum (PFloat (round64 0.5)))
        (PNum (PFloat (round64 0.45))) (PNum (PInt 512)) (PNum (PInt 350))
        \<lparr>hyperparameters = Map.empty\<rparr>))
    in h ''num_classes'' = Some (PNum (PInt 0))
     \<and> h ''learning_rate'' = Some (PNum (PInt (- 1)))
     \<and> h ''lr_scheduler_factor'' = Some (PNum (PInt 0))
     \<and> h ''momentum'' = Some (PNum (PInt 7)))"
  by (simp add: set_hyperparameters_def estimator_set_hyperparameters_def)

text \<open>
  C2, amended. \<^verbatim>\<open>set_hyperparameters\<close> validates nothing and never fails: for all
  argument values, in range or not, the estimator afterwards holds every one of the
  sixteen hyperparameters equal to the argument given for it.
\<close>

theorem C2_fields_stored_unchecked:
  "(let h = hyperparameters (fst (set_hyperparameters num_classes num_training_samples
        mini_batch_size num_epochs learning_rate lr_steps lr_scheduler_factor base_network
        use_pretrained_model optimizer momentum weight_decay overlap_threshold nms_threshold
        image_shape label_width od_model))
    in h ''num_classes'' = Some num_classes
     \<and> h ''num_training_samples'' = Some num_training_samples
     \<and> h ''mini_batch_size'' = Some mini_batch_size
     \<and> h ''epochs'' = Some num_epochs
     \<and> h ''learning_rate'' = Some learning_rate
     \<and> h ''lr_scheduler_step'' = Some lr_steps
     \<and> h ''lr_scheduler_factor'' = Some lr_scheduler_factor
     \<and> h ''base_network'' = Some base_network
     \<and> h ''use_pretrained_model'' = Some use_pretrained_model
     \<and> h ''optimizer'' = Some optimizer
     \<and> h ''momentum'' = Some momentum
     \<and> h ''weight_decay'' = Some weight_decay
     \<and> h ''overlap_threshold'' = Some overlap_threshold
     \<and> h ''nms_threshold'' = Some nms_threshold
     \<and> h ''image_shape'' = Some image_shape
     \<and> h ''label_width'' = Some label_width)"
  by (simp add: set_hyperparameters_def estimator_set_hyperparameters_def)

section \<open>Properties of the drawing loop\<close>

lemma py_ge_iff_not_lt:
  "a \<noteq> NaN \<Longrightarrow> b \<noteq> NaN \<Longrightarrow> py_ge a b \<longleftrightarrow> \<not> py_gt b a"
  by (cases a; cases b) auto

lemma assign_color_fields [simp]:
  "st_dets (assign_color c s) = st_dets s"
  "num_detections (assign_color c s) = num_detections s"
  "patches (assign_color c s) = patches s"
  "texts (assign_color c s) = texts s"
  "stdout (assign_color c s) = stdout s"
  by (simp_all add: assign_color_def split: option.splits)

lemma assign_color_mono:
  "colors s k = Some col \<Longrightarrow> colors (assign_color c s) k = Some col"
  by (auto simp: assign_color_def split: option.splits)

lemma assign_color_dom: "dom (colors (assign_color c s)) = insert c (dom (colors s))"
  by (auto simp: assign_color_def split: option.splits)

lemma assign_color_defined: "\<exists>col. colors (assign_color c s) c = Some col"
  by (auto simp: assign_color_def split: option.splits)



lemma vd_loop_append:
  "vd_loop img classes thresh (xs @ ys) s =
     (case vd_loop img classes thresh xs s of
        (s', Some err) \<Rightarrow> (s', Some err)
      | (s', None) \<Rightarrow> vd_loop img classes thresh ys s')"
  by (induction xs arbitrary: s) (auto split: prod.splits option.splits)

lemma vd_body_row_skip:
  "\<not> passes thresh d \<Longrightarrow> vd_body img classes thresh (det_row d) s = (s, None)"
  by (simp add: vd_body_def det_row_def unpack6_def passes_def)

lemma class_label_Inr:
  "classes = [] \<or> - int (length classes) \<le> c \<Longrightarrow> \<exists>name. class_label classes c = Inr name"
  by (auto simp: class_label_def Let_def)

lemma drawableD:
  assumes "drawable img classes d"
  obtains c name box where "num_int (det_class d) = Inr c" and "det_cls_id d = c"
    and "class_label classes c = Inr name" and "det_box img d = Inr box"
    and "num_format_f (det_score d) = None"
proof -
  from assms obtain c where c: "num_int (det_class d) = Inr c"
    and r: "classes = [] \<or> - int (length classes) \<le> c"
    by (auto simp: drawable_def split: sum.splits)
  from assms obtain box where b: "det_box img d = Inr box"
    by (auto simp: drawable_def split: sum.splits)
  from assms have f: "num_format_f (det_score d) = None"
    by (simp add: drawable_def)
  from class_label_Inr [OF r] obtain name where n: "class_label classes c = Inr name"
    by blast
  have "det_cls_id d = c" by (simp add: det_cls_id_def c)
  with c n b f that show ?thesis by blast
qed

lemma vd_body_row_draw:
  assumes "passes thresh d"
    and "num_int (det_class d) = Inr c"
    and "class_label classes c = Inr name"
    and "det_box img d = Inr box"
    and "num_format_f (det_score d) = None"
    and "colors (assign_color c (s\<lparr>num_detections := num_detections s + 1\<rparr>)) c = Some col"
  shows "vd_body img classes thresh (det_row d) s =
    ((assign_color c (s\<lparr>num_detections := num_detections s + 1\<rparr>))
       \<lparr>patches := patches s @ [box_rect box col],
        stdout := stdout s @ [DetectionLine name (det_score d)],
        texts := texts s @ [box_text box name (det_score d) col]\<rparr>, None)"
proof -
  obtain xmin ymin xmax ymax where b: "box = (xmin, ymin, xmax, ymax)"
    by (cases box) auto
  have p: "pixel_box img (PNum (det_x0 d)) (PNum (det_y0 d)) (PNum (det_x1 d)) (PNum (det_y1 d))
      = Inr (xmin, ymin, xmax, ymax)"
    using assms(4) b by (simp add: det_box_def)
  have l: "\<not> num_lt (det_score d) thresh" using assms(1) by (simp add: passes_def)
  show ?thesis
    using l assms(2,3,5,6) p
    by (simp add: vd_body_def det_row_def unpack6_def Let_def box_rect_def box_text_def b)
qed


text \<open>
  The loop on rows of the documented format, from any state, when every row that
  passes the threshold test is drawable: it ends without an exception, and what it adds
  is determined by the rows that pass, in their order.
\<close>

lemma vd_loop_rows:
  assumes "\<forall>d \<in> set (filter (passes thresh) ds). drawable img classes d"
  shows "\<exists>s'.
      vd_loop img classes thresh (map det_row ds) s = (s', None)
    \<and> num_detections s' = num_detections s + length (filter (passes thresh) ds)
    \<and> (\<forall>k. k \<in> dom (colors s) \<longrightarrow> colors s' k = colors s k)
    \<and> dom (colors s') = dom (colors s) \<union> det_cls_id ` set (filter (passes thresh) ds)
    \<and> patches s' = patches s @
        map (\<lambda>d. det_rect img d (the (colors s' (det_cls_id d)))) (filter (passes thresh) ds)
    \<and> texts s' = texts s @
        map (\<lambda>d. det_text img d (projr (class_label classes (det_cls_id d)))
                  (the (colors s' (det_cls_id d))))
          (filter (passes thresh) ds)
    \<and> stdout s' = stdout s @
        map (\<lambda>d. DetectionLine (projr (class_label classes (det_cls_id d))) (det_score d))
          (filter (passes thresh) ds)"
  using assms
proof (induction ds arbitrary: s)
  case Nil
  then show ?case by simp
next
  case (Cons d ds)
  let ?kept = "filter (passes thresh) ds"
  from Cons.prems have rest: "\<forall>d \<in> set ?kept. drawable img classes d"
    by auto
  show ?case
  proof (cases "passes thresh d")
    case False
    from Cons.IH [OF rest, of s] obtain s' where ih:
      "vd_loop img classes thresh (map det_row ds) s = (s', None)"
      "num_detections s' = num_detections s + length ?kept"
      "\<forall>k. k \<in> dom (colors s) \<longrightarrow> colors s' k = colors s k"
      "dom (colors s') = dom (colors s) \<union> det_cls_id ` set ?kept"
      "patches s' = patches s @ map (\<lambda>d. det_rect img d (the (colors s' (det_cls_id d)))) ?kept"
      "texts s' = texts s @
        map (\<lambda>d. det_text img d (projr (class_label classes (det_cls_id d)))
                  (the (colors s' (det_cls_id d)))) ?kept"
      "stdout s' = stdout s @
        map (\<lambda>d. DetectionLine (projr (class_label classes (det_cls_id d))) (det_score d)) ?kept"
      by blast
    have k: "filter (passes thresh) (d # ds) = ?kept" using False by simp
    have l: "vd_loop img classes thresh (map det_row (d # ds)) s = (s', None)"
      using False ih(1) by (simp add: vd_body_row_skip)
    show ?thesis
      unfolding k using l ih(2-7) by blast
  next
    case True
    with Cons.prems have "drawable img classes d" by simp
    then obtain c name box where c: "num_int (det_class d) = Inr c"
      and cid: "det_cls_id d = c"
      and name: "class_label classes c = Inr name"
      and box: "det_box img d = Inr box"
      and fmt: "num_format_f (det_score d) = None"
      by (rule drawableD)
    let ?s2 = "assign_color c (s\<lparr>num_detections := num_detections s + 1\<rparr>)"
    obtain col where col: "colors ?s2 c = Some col"
      using assign_color_defined [of c] by blast
    let ?s3 = "?s2\<lparr>patches := patches s @ [box_rect box col],
        stdout := stdout s @ [DetectionLine name (det_score d)],
        texts := texts s @ [box_text box name (det_score d) col]\<rparr>"
    have body: "vd_body img classes thresh (det_row d) s = (?s3, None)"
      by (rule vd_body_row_draw [OF True c name box fmt col])
    from Cons.IH [OF rest, of ?s3] obtain s' where ih:
      "vd_loop img classes thresh (map det_row ds) ?s3 = (s', None)"
      "num_detections s' = num_detections ?s3 + length ?kept"
      "\<forall>k. k \<in> dom (colors ?s3) \<longrightarrow> colors s' k = colors ?s3 k"
      "dom (colors s') = dom (colors ?s3) \<union> det_cls_id ` set ?kept"
      "patches s' = patches ?s3 @ map (\<lambda>d. det_rect img d (the (colors s' (det_cls_id d)))) ?kept"
      "texts s' = texts ?s3 @
        map (\<lambda>d. det_text img d (projr (class_label classes (det_cls_id d)))
                  (the (colors s' (det_cls_id d)))) ?kept"
      "stdout s' = stdout ?s3 @
        map (\<lambda>d. DetectionLine (projr (class_label classes (det_cls_id d))) (det_score d)) ?kept"
      by blast
    have c3: "colors ?s3 = colors ?s2" by simp
    have d2: "dom (colors ?s2) = insert c (dom (colors s))"
      using assign_color_dom [of c "s\<lparr>num_detections := num_detections s + 1\<rparr>"] by simp
    have col': "colors s' c = Some col"
      using ih(3) col unfolding c3 by (simp add: domI)
    have dr: "det_rect img d col = box_rect box col" by (simp add: det_rect_def box)
    have dt: "det_text img d name col = box_text box name (det_score d) col"
      by (simp add: det_text_def box)
    have k: "filter (passes thresh) (d # ds) = d # ?kept" using True by simp
    have l: "vd_loop img classes thresh (map det_row (d # ds)) s = (s', None)"
      using body ih(1) by simp
    have n: "num_detections s' = num_detections s + length (d # ?kept)"
      using ih(2) by simp
    have mono: "\<forall>k. k \<in> dom (colors s) \<longrightarrow> colors s' k = colors s k"
    proof (intro allI impI)
      fix k assume "k \<in> dom (colors s)"
      then obtain cl where cl: "colors s k = Some cl" by blast
      then have "colors ?s2 k = Some cl" by (intro assign_color_mono) simp
      moreover from this have "colors s' k = colors ?s2 k"
        using ih(3) unfolding c3 by (simp add: domI)
      ultimately show "colors s' k = colors s k" using cl by simp
    qed
    have dm: "dom (colors s') = dom (colors s) \<union> det_cls_id ` set (d # ?kept)"
      using ih(4) cid unfolding c3 d2 by auto
    have p: "patches s' = patches s @
        map (\<lambda>d. det_rect img d (the (colors s' (det_cls_id d)))) (d # ?kept)"
      using ih(5) col' cid dr by simp
    have t: "texts s' = texts s @
        map (\<lambda>d. det_text img d (projr (class_label classes (det_cls_id d)))
                  (the (colors s' (det_cls_id d)))) (d # ?kept)"
      using ih(6) col' cid name dt by simp
    have o: "stdout s' = stdout s @
        map (\<lambda>d. DetectionLine (projr (class_label classes (det_cls_id d))) (det_score d))
          (d # ?kept)"
      using ih(7) cid name by simp
    show ?thesis
      unfolding k using l n mono dm p t o by blast
  qed
qed

text \<open>The same for a whole call on such rows.\<close>

lemma visualize_detection_rows:
  assumes "\<forall>d \<in> set (filter (passes thresh) ds). drawable img classes d"
  shows "\<exists>s.
      visualize_detection img (PList (map det_row ds)) classes thresh w = (s, None)
    \<and> num_detections s = length (filter (passes thresh) ds)
    \<and> dom (colors s) = det_cls_id ` set (filter (passes thresh) ds)
    \<and> patches s = w_patches w @
        map (\<lambda>d. det_rect img d (the (colors s (det_cls_id d)))) (filter (passes thresh) ds)
    \<and> texts s = w_texts w @
        map (\<lambda>d. det_text img d (projr (class_label classes (det_cls_id d)))
                  (the (colors s (det_cls_id d))))
          (filter (passes thresh) ds)
    \<and> stdout s = w_stdout w @
        map (\<lambda>d. DetectionLine (projr (class_label classes (det_cls_id d))) (det_score d))
          (filter (passes thresh) ds)
        @ [CountLine (length (filter (passes thresh) ds))]"
proof -
  let ?s0 = "\<lparr>st_dets = PList (map det_row ds), colors = Map.empty, num_detections = 0,
              patches = w_patches w, texts = w_texts w, stdout = w_stdout w, rng = w_rng w\<rparr>"
  let ?kept = "filter (passes thresh) ds"
  from vd_loop_rows [OF assms, where s = ?s0] obtain s' where l:
    "vd_loop img classes thresh (map det_row ds) ?s0 = (s', None)"
    "num_detections s' = num_detections ?s0 + length ?kept"
    "dom (colors s') = dom (colors ?s0) \<union> det_cls_id ` set ?kept"
    "patches s' = patches ?s0 @ map (\<lambda>d. det_rect img d (the (colors s' (det_cls_id d)))) ?kept"
    "texts s' = texts ?s0 @
        map (\<lambda>d. det_text img d (projr (class_label classes (det_cls_id d)))
                  (the (colors s' (det_cls_id d)))) ?kept"
    "stdout s' = stdout ?s0 @
        map (\<lambda>d. DetectionLine (projr (class_label classes (det_cls_id d))) (det_score d)) ?kept"
    by blast
  let ?s = "s'\<lparr>stdout := stdout s' @ [CountLine (num_detections s')]\<rparr>"
  have v: "visualize_detection img (PList (map det_row ds)) classes thresh w = (?s, None)"
    using l(1) by (simp add: visualize_detection_def)
  have "num_detections ?s = length ?kept" using l(2) by simp
  moreover have "dom (colors ?s) = det_cls_id ` set ?kept" using l(3) by simp
  moreover have "patches ?s = w_patches w @
        map (\<lambda>d. det_rect img d (the (colors ?s (det_cls_id d)))) ?kept"
    using l(4) by simp
  moreover have "texts ?s = w_texts w @
        map (\<lambda>d. det_text img d (projr (class_label classes (det_cls_id d)))
                  (the (colors ?s (det_cls_id d)))) ?kept"
    using l(5) by simp
  moreover have "stdout ?s = w_stdout w @
        map (\<lambda>d. DetectionLine (projr (class_label classes (det_cls_id d))) (det_score d)) ?kept
        @ [CountLine (length ?kept)]"
    using l(6) l(2) by simp
  ultimately show ?thesis using v by blast
qed




lemma det_rect_edgecolor: "edgecolor (det_rect img d col) = col"
  by (simp add: det_rect_def box_rect_def split: prod.splits)

lemma det_text_fields:
  "facecolor (det_text img d name col) = col"
  "text_score (det_text img d name col) = det_score d"
  by (simp_all add: det_text_def box_text_def split: prod.splits)

lemmas draw_defs =
  example_det_def example_image_def example_world_def det_row_def det_cls_id_def
  det_box_def det_rect_def det_text_def box_rect_def box_text_def py_trunc_def
  class_label_def py_str_int_def digits_of.simps passes_def drawable_def num_lt_def
  int_to_float_def round_defs

lemmas call_defs =
  visualize_detection_def vd_body_def unpack6_def pixel_box_def py_int_mul_def
  assign_color_def

text \<open>
  C5, as stated, fails. The source skips a row when \<^verbatim>\<open>score < thresh\<close>, and a NaN score
  is not below any threshold: the row is drawn and counted although its score is not
  greater than or equal to the threshold. And a row that passes the threshold is not
  drawn when an earlier row has made the label lookup raise (C6): of two rows with score
  0.9 and class ids -2 and 0, one rectangle is drawn and no count is printed.
\<close>

theorem C5_counterexample:
  "(let d = (example_det 0 0.9)\<lparr>det_score := PFloat NaN\<rparr>;
        r = visualize_detection example_image (PList [det_row d]) [''bird''] (round64 0.6)
              example_world
    in \<not> py_ge (num_exact (det_score d)) (round64 0.6)
     \<and> snd r = None \<and> length (patches (fst r)) = 1 \<and> last (stdout (fst r)) = CountLine 1)
   \<and> (let ds = [example_det (- 2) 0.9, example_det 0 0.9];
          r = visualize_detection example_image (PList (map det_row ds)) [''bird'']
                (round64 0.6) example_world
      in list_all (\<lambda>d. py_ge (num_exact (det_score d)) (round64 0.6)) ds
       \<and> snd r = Some IndexError \<and> length (patches (fst r)) = 1 \<and> stdout (fst r) = [])"
  by (simp add: draw_defs call_defs Let_def)

text \<open>
  C5, amended. For every list of rows of six numbers and every threshold, when each row
  that is not skipped can be drawn without an exception, \<^verbatim>\<open>visualize_detection\<close> draws
  one rectangle and one label for exactly the rows whose score does not compare below
  the threshold, in the order of the input, and the count it prints is their number.
  Unless the score or the threshold is a NaN, these are the rows whose score is greater
  than or equal to the threshold; with threshold 0.6 and scores 0.9, 0.3, 0.7 two
  rectangles are drawn.
\<close>

theorem C5_draws_rows_not_below_threshold:
  assumes "\<forall>d \<in> set (filter (passes thresh) ds). drawable img classes d"
  shows "(case visualize_detection img (PList (map det_row ds)) classes thresh w of
      (s, raised) \<Rightarrow>
        raised = None
      \<and> patches s = w_patches w @
          map (\<lambda>d. det_rect img d (the (colors s (det_cls_id d)))) (filter (passes thresh) ds)
      \<and> map text_score (drop (length (w_texts w)) (texts s)) =
          map det_score (filter (passes thresh) ds)
      \<and> num_detections s = length (filter (passes thresh) ds)
      \<and> last (stdout s) = CountLine (length (filter (passes thresh) ds)))
   \<and> (\<forall>d. passes thresh d \<longleftrightarrow> \<not> py_gt thresh (num_exact (det_score d)))
   \<and> (\<forall>d. num_exact (det_score d) \<noteq> NaN \<and> thresh \<noteq> NaN \<longrightarrow>
          (passes thresh d \<longleftrightarrow> py_ge (num_exact (det_score d)) thresh))"
proof (intro conjI allI impI)
  let ?kept = "filter (passes thresh) ds"
  from visualize_detection_rows [OF assms, where w = w] obtain s where v:
    "visualize_detection img (PList (map det_row ds)) classes thresh w = (s, None)"
    "num_detections s = length ?kept"
    "patches s = w_patches w @ map (\<lambda>d. det_rect img d (the (colors s (det_cls_id d)))) ?kept"
    "texts s = w_texts w @
        map (\<lambda>d. det_text img d (projr (class_label classes (det_cls_id d)))
                  (the (colors s (det_cls_id d)))) ?kept"
    "stdout s = w_stdout w @
        map (\<lambda>d. DetectionLine (projr (class_label classes (det_cls_id d))) (det_score d)) ?kept
        @ [CountLine (length ?kept)]"
    by blast
  have t: "map text_score (drop (length (w_texts w)) (texts s)) = map det_score ?kept"
    unfolding v(4) by (simp add: det_text_fields)
  have o: "last (stdout s) = CountLine (length ?kept)"
    unfolding v(5) by simp
  show "case visualize_detection img (PList (map det_row ds)) classes thresh w of
      (s, raised) \<Rightarrow>
        raised = None
      \<and> patches s = w_patches w @
          map (\<lambda>d. det_rect img d (the (colors s (det_cls_id d)))) ?kept
      \<and> map text_score (drop (length (w_texts w)) (texts s)) = map det_score ?kept
      \<and> num_detections s = length ?kept
      \<and> last (stdout s) = CountLine (length ?kept)"
    unfolding v(1) using v(2) v(3) t o by simp
next
  fix d :: detection
  show "passes thresh d \<longleftrightarrow> \<not> py_gt thresh (num_exact (det_score d))"
    by (simp add: passes_def num_lt_def)
next
  fix d :: detection
  assume "num_exact (det_score d) \<noteq> NaN \<and> thresh \<noteq> NaN"
  then show "passes thresh d \<longleftrightarrow> py_ge (num_exact (det_score d)) thresh"
    by (simp add: passes_def num_lt_def py_ge_iff_not_lt)
qed

theorem C5_draws_rows_not_below_threshold_witness:
  "list_all (drawable example_image [''bird''])
     (filter (passes (round64 0.6)) [example_det 0 0.9, example_det 0 0.3, example_det 0 0.7])
   \<and> filter (passes (round64 0.6)) [example_det 0 0.9, example_det 0 0.3, example_det 0 0.7]
       = [example_det 0 0.9, example_det 0 0.7]
   \<and> (case visualize_detection example_image
         (PList (map det_row [example_det 0 0.9, example_det 0 0.3, example_det 0 0.7]))
         [''bird''] (round64 0.6) example_world of
       (s, raised) \<Rightarrow>
         raised = None
       \<and> length (patches s) = 2
       \<and> map rect_xy (patches s) = [(20, 20), (20, 20)]
       \<and> map text_score (texts s) = [PFloat (round64 0.9), PFloat (round64 0.7)]
       \<and> num_detections s = 2
       \<and> last (stdout s) = CountLine 2)
   \<and> num_exact (det_score (example_det 0 0.6)) \<noteq> NaN \<and> round64 0.6 \<noteq> NaN
   \<and> passes (round64 0.6) (example_det 0 0.6)
   \<and> py_ge (num_exact (det_score (example_det 0 0.6))) (round64 0.6)"
proof -
  let ?ds = "[example_det 0 0.9, example_det 0 0.3, example_det 0 0.7]"
  let ?kept = "[example_det 0 0.9, example_det 0 0.7]"
  have k: "filter (passes (round64 0.6)) ?ds = ?kept"
    by (simp add: example_det_def passes_def num_lt_def round_defs)
  have dr: "drawable example_image [''bird''] (example_det 0 sc)" for sc
    by (simp add: draw_defs pixel_box_def py_int_mul_def)
  have h: "\<forall>d \<in> set (filter (passes (round64 0.6)) ?ds). drawable example_image [''bird''] d"
    unfolding k using dr by simp
  have hl: "list_all (drawable example_image [''bird'']) (filter (passes (round64 0.6)) ?ds)"
    unfolding k using dr by simp
  note t = C5_draws_rows_not_below_threshold [OF h, where w = example_world]
  have b: "det_box example_image (example_det 0 sc) = Inr (20, 20, 100, 60)" for sc
    by (simp add: draw_defs pixel_box_def py_int_mul_def)
  have r: "rect_xy (det_rect example_image (example_det 0 sc) col) = (20, 20)" for sc col
    by (simp add: det_rect_def box_rect_def b)
  have sc: "det_score (example_det 0 x) = PFloat (round64 x)" for x
    by (simp add: example_det_def)
  from t [THEN conjunct1]
  have c: "case visualize_detection example_image (PList (map det_row ?ds)) [''bird'']
         (round64 0.6) example_world of
       (s, raised) \<Rightarrow>
         raised = None
       \<and> length (patches s) = 2
       \<and> map rect_xy (patches s) = [(20, 20), (20, 20)]
       \<and> map text_score (texts s) = [PFloat (round64 0.9), PFloat (round64 0.7)]
       \<and> num_detections s = 2
       \<and> last (stdout s) = CountLine 2"
    unfolding k by (auto simp: r sc example_world_def split: prod.splits)
  have n: "num_exact (det_score (example_det 0 0.6)) \<noteq> NaN \<and> round64 0.6 \<noteq> NaN"
    by (simp add: example_det_def round_defs)
  from t [THEN conjunct2, THEN conjunct2] n
  have e: "passes (round64 0.6) (example_det 0 0.6)
      \<longleftrightarrow> py_ge (num_exact (det_score (example_det 0 0.6))) (round64 0.6)"
    by blast
  have g: "py_ge (num_exact (det_score (example_det 0 0.6))) (round64 0.6)"
    by (simp add: example_det_def round_defs)
  with e have p: "passes (round64 0.6) (example_det 0 0.6)" by simp
  from hl k c n p g show ?thesis by blast
qed

text \<open>
  C6. The fallback to the bare class id is taken only when the class id is at or above
  the number of class names. A negative class id passes the guard
  \<^verbatim>\<open>len(classes) > cls_id\<close> and indexes the list from the end: with one class name, the
  id -1 is labelled with that name, and the id -2 raises \<^verbatim>\<open>IndexError\<close> after its
  rectangle has been drawn.
\<close>

theorem C6_negative_class_id:
  "class_label [''bird''] 1 = Inr ''1''
   \<and> class_label [''bird''] (- 1) = Inr ''bird''
   \<and> class_label [''bird''] (- 2) = Inl IndexError
   \<and> (case visualize_detection example_image (PList [det_row (example_det (- 1) 0.9)])
          [''bird''] (round64 0.6) example_world of
        (s, raised) \<Rightarrow> raised = None \<and> map text_class_name (texts s) = [''bird''])
   \<and> (case visualize_detection example_image (PList [det_row (example_det (- 2) 0.9)])
          [''bird''] (round64 0.6) example_world of
        (s, raised) \<Rightarrow> raised = Some IndexError \<and> length (patches s) = 1 \<and> texts s = [])"
  by (simp add: draw_defs call_defs)




text \<open>
  A row of the documented shape is not always drawable: a coordinate written \<open>1e309\<close>
  is decoded as an infinity and \<^verbatim>\<open>int\<close> raises \<^verbatim>\<open>OverflowError\<close>; a NaN coordinate
  raises \<^verbatim>\<open>ValueError\<close>.
\<close>

lemma nonfinite_coordinate_raises:
  "py_float ''1e309'' = Some PInf
   \<and> snd (show_hb_prediction example_image [''bird'']
         (PDict [(''prediction'',
            PList [det_row ((example_det 0 0.9)\<lparr>det_x0 := PFloat PInf\<rparr>)])])
         (round64 0.4) example_world) = Some OverflowError
   \<and> snd (show_hb_prediction example_image [''bird'']
         (PDict [(''prediction'',
            PList [det_row ((example_det 0 0.9)\<lparr>det_x0 := PFloat NaN\<rparr>)])])
         (round64 0.4) example_world) = Some (ValueError FloatNaNToInteger)"
  by (simp add: show_hb_prediction_def world_of_def draw_defs call_defs float_defs Let_def)

text \<open>
  A pixel coordinate is \<^verbatim>\<open>int\<close> of the rounded product, which can lie below the exact
  one: \<^verbatim>\<open>int(0.29 * 100)\<close> is 28 and \<^verbatim>\<open>int(0.57 * 100)\<close> is 56, while
  \<^verbatim>\<open>int(0.7 * 10)\<close> is 7.
\<close>

lemma pixel_rounding:
  "py_int_mul (PNum (PFloat (round64 0.29))) 100 = Inr 28
   \<and> py_int_mul (PNum (PFloat (round64 0.7))) 10 = Inr 7
   \<and> py_int_mul (PNum (PFloat (round64 0.57))) 100 = Inr 56
   \<and> py_int_mul (PNum (PFloat (round64 0.5))) 200 = Inr 100"
  by (simp add: py_int_mul_def int_to_float_def py_trunc_def round_defs)

lemma assign_color_st_dets:
  "assign_color c (s\<lparr>st_dets := x\<rparr>) = (assign_color c s)\<lparr>st_dets := x\<rparr>"
  by (simp add: assign_color_def split: option.splits)

lemma vd_body_st_dets_indep:
  "vd_body img classes thresh det (s\<lparr>st_dets := x\<rparr>) =
     (case vd_body img classes thresh det s of (s', r) \<Rightarrow> (s'\<lparr>st_dets := x\<rparr>, r))"
  by (simp add: vd_body_def Let_def assign_color_def
      split: sum.splits prod.splits option.splits)

lemma vd_loop_st_dets_indep:
  "vd_loop img classes thresh items (s\<lparr>st_dets := x\<rparr>) =
     (case vd_loop img classes thresh items s of (s', r) \<Rightarrow> (s'\<lparr>st_dets := x\<rparr>, r))"
proof (induction items arbitrary: s)
  case Nil
  then show ?case by simp
next
  case (Cons det rest)
  obtain s1 r1 where b: "vd_body img classes thresh det s = (s1, r1)"
    by (cases "vd_body img classes thresh det s")
  then have b': "vd_body img classes thresh det (s\<lparr>st_dets := x\<rparr>) = (s1\<lparr>st_dets := x\<rparr>, r1)"
    by (simp add: vd_body_st_dets_indep)
  show ?case
  proof (cases r1)
    case None
    with b b' Cons.IH [of s1] show ?thesis by simp
  next
    case (Some err)
    with b b' show ?thesis by simp
  qed
qed

text \<open>
  The rectangles a call draws for its first rows are the same, colors included, when
  further rows follow them.
\<close>

lemma visualize_detection_prefix:
  assumes "\<forall>d \<in> set (filter (passes thresh) ds). drawable img classes d"
    and "\<forall>d \<in> set (filter (passes thresh) ds2). drawable img classes d"
  shows "\<exists>more.
      patches (fst (visualize_detection img (PList (map det_row (ds @ ds2))) classes thresh w))
    = patches (fst (visualize_detection img (PList (map det_row ds)) classes thresh w)) @ more"
proof -
  let ?s0 = "\<lparr>st_dets = PList (map det_row ds), colors = Map.empty, num_detections = 0,
              patches = w_patches w, texts = w_texts w, stdout = w_stdout w, rng = w_rng w\<rparr>"
  let ?x = "PList (map det_row (ds @ ds2))"
  have i: "\<lparr>st_dets = ?x, colors = Map.empty, num_detections = 0,
              patches = w_patches w, texts = w_texts w, stdout = w_stdout w, rng = w_rng w\<rparr>
      = ?s0\<lparr>st_dets := ?x\<rparr>"
    by simp
  from vd_loop_rows [OF assms(1), where s = ?s0]
  obtain s1 where l1: "vd_loop img classes thresh (map det_row ds) ?s0 = (s1, None)"
    by blast
  from vd_loop_rows [OF assms(2), where s = s1]
  obtain s2 more where l2: "vd_loop img classes thresh (map det_row ds2) s1 = (s2, None)"
    and p2: "patches s2 = patches s1 @ more"
    by blast
  have l12: "vd_loop img classes thresh (map det_row (ds @ ds2)) ?s0 = (s2, None)"
    using l1 l2 by (simp add: vd_loop_append)
  have v1: "patches (fst (visualize_detection img (PList (map det_row ds)) classes thresh w))
      = patches s1"
    using l1 by (simp add: visualize_detection_def)
  have "vd_loop img classes thresh (map det_row (ds @ ds2)) (?s0\<lparr>st_dets := ?x\<rparr>)
      = (s2\<lparr>st_dets := ?x\<rparr>, None)"
    unfolding vd_loop_st_dets_indep l12 by simp
  then have v2: "patches (fst (visualize_detection img ?x classes thresh w)) = patches s2"
    unfolding visualize_detection_def Let_def i by simp
  show ?thesis unfolding v1 v2 using p2 by blast
qed

text \<open>
  C8. Within one call, the color of a class id is the entry that \<^verbatim>\<open>colors\<close> holds for
  it: every rectangle and every label of that class id is drawn with it, so two
  detections of the same class id have the same color. The entry is made when the
  class id is first met and is not changed by the detections that follow. \<^verbatim>\<open>colors\<close>
  belongs to the call: it starts empty, and at the end it holds exactly the class ids
  drawn in this call, whatever was drawn before.
\<close>

theorem C8_color_per_class:
  assumes "\<forall>d \<in> set (filter (passes thresh) ds). drawable img classes d"
  shows "(case visualize_detection img (PList (map det_row ds)) classes thresh w of
      (s, raised) \<Rightarrow>
        raised = None
      \<and> dom (colors s) = det_cls_id ` set (filter (passes thresh) ds)
      \<and> map (\<lambda>p. Some (edgecolor p)) (drop (length (w_patches w)) (patches s)) =
          map (\<lambda>d. colors s (det_cls_id d)) (filter (passes thresh) ds)
      \<and> map (\<lambda>t. Some (facecolor t)) (drop (length (w_texts w)) (texts s)) =
          map (\<lambda>d. colors s (det_cls_id d)) (filter (passes thresh) ds)
      \<and> (\<forall>i j. i < length (filter (passes thresh) ds)
            \<and> j < length (filter (passes thresh) ds)
            \<and> det_cls_id (filter (passes thresh) ds ! i) =
              det_cls_id (filter (passes thresh) ds ! j) \<longrightarrow>
            edgecolor (drop (length (w_patches w)) (patches s) ! i) =
            edgecolor (drop (length (w_patches w)) (patches s) ! j))
      \<and> (\<forall>ds2. (\<forall>d \<in> set (filter (passes thresh) ds2). drawable img classes d) \<longrightarrow>
            take (length (patches s))
              (patches (fst (visualize_detection img (PList (map det_row (ds @ ds2)))
                 classes thresh w)))
            = patches s))"
proof -
  let ?kept = "filter (passes thresh) ds"
  from visualize_detection_rows [OF assms, where w = w]
  obtain s where v:
    "visualize_detection img (PList (map det_row ds)) classes thresh w = (s, None)"
    "dom (colors s) = det_cls_id ` set ?kept"
    "patches s = w_patches w @ map (\<lambda>d. det_rect img d (the (colors s (det_cls_id d)))) ?kept"
    "texts s = w_texts w @
        map (\<lambda>d. det_text img d (projr (class_label classes (det_cls_id d)))
                  (the (colors s (det_cls_id d)))) ?kept"
    by blast
  have known: "Some (the (colors s (det_cls_id d))) = colors s (det_cls_id d)"
    if "d \<in> set ?kept" for d
  proof -
    from that have "det_cls_id d \<in> dom (colors s)" unfolding v(2) by (rule imageI)
    then show ?thesis by auto
  qed
  have e: "map (\<lambda>p. Some (edgecolor p)) (drop (length (w_patches w)) (patches s)) =
      map (\<lambda>d. colors s (det_cls_id d)) ?kept"
    unfolding v(3) using known by (simp add: det_rect_edgecolor)
  have f: "map (\<lambda>t. Some (facecolor t)) (drop (length (w_texts w)) (texts s)) =
      map (\<lambda>d. colors s (det_cls_id d)) ?kept"
    unfolding v(4) using known by (simp add: det_text_fields)
  have len: "length (drop (length (w_patches w)) (patches s)) = length ?kept"
    unfolding v(3) by simp
  have at: "Some (edgecolor (drop (length (w_patches w)) (patches s) ! i)) =
      colors s (det_cls_id (?kept ! i))" if "i < length ?kept" for i
  proof -
    from that len have "map (\<lambda>p. Some (edgecolor p)) (drop (length (w_patches w)) (patches s)) ! i
        = Some (edgecolor (drop (length (w_patches w)) (patches s) ! i))"
      by simp
    moreover from that have "map (\<lambda>d. colors s (det_cls_id d)) ?kept ! i =
        colors s (det_cls_id (?kept ! i))"
      by simp
    ultimately show ?thesis using e by simp
  qed
  have same: "\<forall>i j. i < length ?kept \<and> j < length ?kept
            \<and> det_cls_id (?kept ! i) = det_cls_id (?kept ! j) \<longrightarrow>
            edgecolor (drop (length (w_patches w)) (patches s) ! i) =
            edgecolor (drop (length (w_patches w)) (patches s) ! j)"
  proof (intro allI impI)
    fix i j
    assume a: "i < length ?kept \<and> j < length ?kept
            \<and> det_cls_id (?kept ! i) = det_cls_id (?kept ! j)"
    then have "Some (edgecolor (drop (length (w_patches w)) (patches s) ! i)) =
        Some (edgecolor (drop (length (w_patches w)) (patches s) ! j))"
      using at [of i] at [of j] by simp
    then show "edgecolor (drop (length (w_patches w)) (patches s) ! i) =
            edgecolor (drop (length (w_patches w)) (patches s) ! j)"
      by simp
  qed
  have stable: "\<forall>ds2. (\<forall>d \<in> set (filter (passes thresh) ds2). drawable img classes d) \<longrightarrow>
            take (length (patches s))
              (patches (fst (visualize_detection img (PList (map det_row (ds @ ds2)))
                 classes thresh w)))
            = patches s"
  proof (intro allI impI)
    fix ds2
    assume "\<forall>d \<in> set (filter (passes thresh) ds2). drawable img classes d"
    from visualize_detection_prefix [OF assms this, where w = w]
    obtain more where
      "patches (fst (visualize_detection img (PList (map det_row (ds @ ds2))) classes thresh w))
        = patches s @ more"
      unfolding v(1) by auto
    then show "take (length (patches s))
              (patches (fst (visualize_detection img (PList (map det_row (ds @ ds2)))
                 classes thresh w)))
            = patches s"
      by simp
  qed
  show ?thesis
    unfolding v(1) using v(2) e f same stable by simp
qed

theorem C8_color_per_class_witness:
  "list_all (drawable example_image [''a'', ''b''])
     (filter (passes (round64 0.6)) [example_det 0 0.9, example_det 1 0.8, example_det 0 0.7])
   \<and> (case visualize_detection example_image
         (PList (map det_row [example_det 0 0.9, example_det 1 0.8, example_det 0 0.7]))
         [''a'', ''b''] (round64 0.6) example_world of
       (s, raised) \<Rightarrow>
         raised = None
       \<and> dom (colors s) = {0, 1}
       \<and> map edgecolor (patches s) =
           [(1 / 2, 1 / 3, 1 / 4), (1 / 5, 1 / 6, 1 / 7), (1 / 2, 1 / 3, 1 / 4)])"
proof -
  let ?ds = "[example_det 0 0.9, example_det 1 0.8, example_det 0 0.7]"
  have k: "filter (passes (round64 0.6)) ?ds = ?ds"
    by (simp add: example_det_def passes_def num_lt_def round_defs)
  have dr: "drawable example_image [''a'', ''b''] (example_det 0 sc)"
    "drawable example_image [''a'', ''b''] (example_det 1 sc)" for sc
    by (simp_all add: draw_defs pixel_box_def py_int_mul_def)
  have h: "\<forall>d \<in> set (filter (passes (round64 0.6)) ?ds).
      drawable example_image [''a'', ''b''] d"
    unfolding k using dr by simp
  have hl: "list_all (drawable example_image [''a'', ''b''])
      (filter (passes (round64 0.6)) ?ds)"
    unfolding k using dr by simp
  obtain s raised where v: "visualize_detection example_image (PList (map det_row ?ds))
      [''a'', ''b''] (round64 0.6) example_world = (s, raised)"
    by (cases "visualize_detection example_image (PList (map det_row ?ds))
      [''a'', ''b''] (round64 0.6) example_world")
  from C8_color_per_class [OF h, where w = example_world]
  have c: "raised = None \<and> dom (colors s) = det_cls_id ` set ?ds"
    unfolding k v by simp
  have d: "det_cls_id ` set ?ds = {0, 1}"
    by (auto simp: example_det_def det_cls_id_def py_trunc_def)
  have e: "map edgecolor (patches s) =
      [(1 / 2, 1 / 3, 1 / 4), (1 / 5, 1 / 6, 1 / 7), (1 / 2, 1 / 3, 1 / 4)]"
    using v by (auto simp: draw_defs call_defs)
  from c d e have "raised = None \<and> dom (colors s) = {0, 1}
      \<and> map edgecolor (patches s) =
           [(1 / 2, 1 / 3, 1 / 4), (1 / 5, 1 / 6, 1 / 7), (1 / 2, 1 / 3, 1 / 4)]"
    by simp
  with hl show ?thesis unfolding v by simp
qed


end
